theory Spec2Isabelle
  imports Complex_Main "HOL-Library.Sublist"
begin

section \<open>Strings, errors and numbers as \<open>WEnvironment.C\<close> uses them\<close>

text \<open>
  A \<open>std::string\<close> is a \<open>string\<close> (a list of 8-bit characters). A position of type
  \<open>std::string::size_type\<close> is a \<open>nat option\<close>, where \<open>None\<close> stands for
  \<open>std::string::npos\<close>. The two exceptions that the operations called by the code can
  throw are values of \<open>error\<close>; a computation that may throw returns \<open>error + 'a\<close>.
\<close>

datatype error = OutOfRange | BadLexicalCast

definition ebind :: "error + 'a \<Rightarrow> ('a \<Rightarrow> error + 'b) \<Rightarrow> error + 'b" where
  "ebind m f = (case m of Inl e \<Rightarrow> Inl e | Inr v \<Rightarrow> f v)"

text \<open>\<open>s.find(pat)\<close>: the first position where \<open>pat\<close> occurs in \<open>s\<close>, or npos.\<close>

fun find_str :: "string \<Rightarrow> string \<Rightarrow> nat option" where
  "find_str [] pat = (if pat = [] then Some 0 else None)"
| "find_str (c # cs) pat =
     (if prefix pat (c # cs) then Some 0 else map_option Suc (find_str cs pat))"

text \<open>\<open>s.find(ch)\<close> and \<open>s.rfind(ch)\<close> for a single character.\<close>

fun find_chr :: "string \<Rightarrow> char \<Rightarrow> nat option" where
  "find_chr [] ch = None"
| "find_chr (c # cs) ch = (if c = ch then Some 0 else map_option Suc (find_chr cs ch))"

definition rfind_chr :: "string \<Rightarrow> char \<Rightarrow> nat option" where
  "rfind_chr s ch =
     (case find_chr (rev s) ch of None \<Rightarrow> None | Some i \<Rightarrow> Some (length s - 1 - i))"

text \<open>
  \<open>s.substr(pos, n)\<close> throws \<open>std::out_of_range\<close> when \<open>pos > s.size()\<close>; the count
  \<open>None\<close> (npos, also the default argument) takes everything up to the end.
\<close>

definition substr :: "string \<Rightarrow> nat \<Rightarrow> nat option \<Rightarrow> error + string" where
  "substr s pos n =
     (if length s < pos then Inl OutOfRange
      else Inr (case n of None \<Rightarrow> drop pos s | Some k \<Rightarrow> take k (drop pos s)))"

text \<open>
  The Boost string algorithms, in the classic locale: \<open>boost::trim\<close> removes leading and
  trailing white space, \<open>boost::starts_with\<close> is the prefix test, and
  \<open>boost::split(out, s, boost::is_any_of(seps))\<close> cuts at every separator character
  without compressing adjacent separators, so that \<open>n\<close> separators give \<open>n + 1\<close> tokens
  (one empty token for the empty string).
\<close>

definition is_space :: "char \<Rightarrow> bool" where
  "is_space c = (c \<in> set [CHR '' '', CHR 0x09, CHR 0x0A, CHR 0x0B, CHR 0x0C, CHR 0x0D])"

definition boost_trim :: "string \<Rightarrow> string" where
  "boost_trim s = rev (dropWhile is_space (rev (dropWhile is_space s)))"

definition starts_with :: "string \<Rightarrow> string \<Rightarrow> bool" where
  "starts_with s p = prefix p s"

fun boost_split :: "string \<Rightarrow> string \<Rightarrow> string list" where
  "boost_split seps [] = [[]]"
| "boost_split seps (c # cs) =
     (if c \<in> set seps then [] # boost_split seps cs
      else (case boost_split seps cs of
              [] \<Rightarrow> [[c]]
            | w # ws \<Rightarrow> (c # w) # ws))"

text \<open>
  A \<open>double\<close> is a real number, an infinity or a NaN. The code only stores doubles,
  writes the constant 1 and compares with the constant 10, all of which are exact.
  \<open>boost::lexical_cast\<close> is not part of the repository: the two conversions are
  parameters, \<open>string \<Rightarrow> double option\<close> and \<open>string \<Rightarrow> int option\<close>, with \<open>None\<close>
  for an input on which the conversion throws \<open>bad_lexical_cast\<close>.
\<close>

datatype double = Finite real | PosInf | NegInf | NaN

fun double_ge :: "double \<Rightarrow> real \<Rightarrow> bool" where
  "double_ge (Finite x) y = (y \<le> x)"
| "double_ge PosInf y = True"
| "double_ge NegInf y = False"
| "double_ge NaN y = False"

definition lexical_cast :: "(string \<Rightarrow> 'a option) \<Rightarrow> string \<Rightarrow> error + 'a" where
  "lexical_cast conv s = (case conv s of None \<Rightarrow> Inl BadLexicalCast | Some v \<Rightarrow> Inr v)"


section \<open>The data model\<close>

text \<open>The enumeration \<open>WEnvironment::UserAgent\<close>, with the enumerators the code assigns.\<close>

datatype UserAgent =
    Unknown
  | IEMobile | IE6 | IE7 | IE8 | IE9 | IE10
  | Opera | Opera10
  | WebKit | Safari | Safari3 | Safari4
  | Chrome0 | Chrome1 | Chrome2 | Chrome3 | Chrome4 | Chrome5
  | Arora | MobileWebKit | MobileWebKitiPhone | MobileWebKitAndroid
  | Konqueror | Gecko
  | Firefox | Firefox3_0 | Firefox3_1 | Firefox3_1b | Firefox3_5 | Firefox3_6
  | Firefox4_0 | Firefox5_0
  | BotAgent

text \<open>
  The configuration object, read only: the reverse-proxy flag and the bot predicate over
  user-agent strings.
\<close>

record Configuration =
  behindReverseProxy :: bool
  agentIsBot :: "string \<Rightarrow> bool"

text \<open>
  The request, as the observations that \<open>WEnvironment\<close> makes of a \<open>WebRequest\<close>: one
  field for each method called. A header or environment variable that is absent reads
  as the empty string; \<open>getParameter\<close> returns a null pointer (\<open>None\<close>) for an absent
  parameter.
\<close>

record WebRequest =
  req_queryString :: string
  req_getParameterMap :: "string \<rightharpoonup> string list"
  req_getParameter :: "string \<rightharpoonup> string"
  req_urlScheme :: string
  req_headerValue :: "string \<Rightarrow> string"
  req_envValue :: "string \<Rightarrow> string"
  req_pathInfo :: string
  req_sslInfo :: "nat option"
  req_serverName :: string
  req_serverPort :: string
  req_parseLocale :: string

text \<open>
  The data members of \<open>WEnvironment\<close> (the source writes each with a trailing
  underscore; \<open>locale_\<close> is \<open>env_locale\<close> here, the bare word being reserved). The
  session pointer is left out: the environment reads the configuration
  through it, and the configuration is passed to each operation instead.
\<close>

record WEnvironment =
  doesAjax :: bool
  doesCookies :: bool
  hashInternalPaths :: bool
  dpiScale :: double
  timeZoneOffset :: int
  queryString :: string
  parameters :: "string \<rightharpoonup> string list"
  cookies :: "string \<rightharpoonup> string"
  env_locale :: string
  host :: string
  userAgent :: string
  urlScheme :: string
  referer :: string
  accept :: string
  serverSignature :: string
  serverSoftware :: string
  serverAdmin :: string
  clientAddress :: string
  pathInfo :: string
  internalPath :: string
  publicDeploymentPath :: string
  sslInfo :: "nat option"
  agent :: UserAgent


section \<open>Classifying the user agent (\<open>WEnvironment::setUserAgent\<close>)\<close>

text \<open>\<open>userAgent_.find(tok) != std::string::npos\<close>.\<close>

definition contains :: "string \<Rightarrow> string \<Rightarrow> bool" where
  "contains ua tok = (find_str ua tok \<noteq> None)"

text \<open>The Internet Explorer chain, lines 232 to 251.\<close>

definition ie_group :: "string \<Rightarrow> UserAgent \<Rightarrow> UserAgent" where
  "ie_group ua a =
     (if contains ua ''MSIE 2.'' \<or> contains ua ''MSIE 3.'' \<or> contains ua ''MSIE 4.''
         \<or> contains ua ''MSIE 5.'' \<or> contains ua ''IEMobile'' then IEMobile
      else if contains ua ''MSIE 6.'' then IE6
      else if contains ua ''Trident/5.0'' then IE9
      else if contains ua ''Trident/6.0'' then IE10
      else if contains ua ''MSIE 7.'' then IE7
      else if contains ua ''MSIE 8.'' then IE8
      else if contains ua ''MSIE 9.'' then IE9
      else if contains ua ''MSIE'' then IE10
      else a)"

text \<open>
  The Opera block, lines 253 to 268. The version is the text after the first
  \<open>Version/\<close>, cut at its first space; a \<open>bad_lexical_cast\<close> is caught and ignored, any
  other exception would propagate.
\<close>

definition opera_version :: "(string \<Rightarrow> double option) \<Rightarrow> string \<Rightarrow> error + UserAgent" where
  "opera_version lcd ua =
     (case find_str ua ''Version/'' of
        None \<Rightarrow> Inr Opera
      | Some t \<Rightarrow>
          ebind (substr ua (t + 8) None) (\<lambda>vs.
          ebind (case find_chr vs CHR '' '' of
                   None \<Rightarrow> Inr vs
                 | Some t' \<Rightarrow> substr vs 0 (Some t')) (\<lambda>vs'.
          case lexical_cast lcd vs' of
            Inr v \<Rightarrow> Inr (if double_ge v 10 then Opera10 else Opera)
          | Inl BadLexicalCast \<Rightarrow> Inr Opera
          | Inl e \<Rightarrow> Inl e)))"

definition opera_group ::
  "(string \<Rightarrow> double option) \<Rightarrow> string \<Rightarrow> UserAgent \<Rightarrow> error + UserAgent" where
  "opera_group lcd ua a = (if contains ua ''Opera'' then opera_version lcd ua else Inr a)"

text \<open>The WebKit, Konqueror and Gecko chain, lines 270 to 308.\<close>

definition webkit_group :: "string \<Rightarrow> UserAgent \<Rightarrow> UserAgent" where
  "webkit_group ua a =
     (if contains ua ''Chrome'' then
        (if contains ua ''Chrome/0.'' then Chrome0
         else if contains ua ''Chrome/1.'' then Chrome1
         else if contains ua ''Chrome/2.'' then Chrome2
         else if contains ua ''Chrome/3.'' then Chrome3
         else if contains ua ''Chrome/4.'' then Chrome4
         else Chrome5)
      else if contains ua ''Safari'' then
        (if contains ua ''iPhone'' \<or> contains ua ''iPad'' then MobileWebKitiPhone
         else if contains ua ''Android'' then MobileWebKitAndroid
         else if contains ua ''Mobile'' then MobileWebKit
         else if \<not> contains ua ''Version'' then
           (if contains ua ''Arora'' then Arora else Safari)
         else if contains ua ''Version/3'' then Safari3
         else Safari4)
      else if contains ua ''WebKit'' then
        (if contains ua ''iPhone'' then MobileWebKitiPhone else WebKit)
      else if contains ua ''Konqueror'' then Konqueror
      else if contains ua ''Gecko'' then Gecko
      else a)"

text \<open>The Firefox block, lines 310 to 333.\<close>

definition firefox_group :: "string \<Rightarrow> UserAgent \<Rightarrow> UserAgent" where
  "firefox_group ua a =
     (if contains ua ''Firefox'' then
        (if contains ua ''Firefox/0.'' then Firefox
         else if contains ua ''Firefox/1.'' then Firefox
         else if contains ua ''Firefox/2.'' then Firefox
         else
           (if contains ua ''Firefox/3.0'' then Firefox3_0
            else if contains ua ''Firefox/3.1'' then Firefox3_1
            else if contains ua ''Firefox/3.1b'' then Firefox3_1b
            else if contains ua ''Firefox/3.5'' then Firefox3_5
            else if contains ua ''Firefox/3.6'' then Firefox3_6
            else if contains ua ''Firefox/4.'' then Firefox4_0
            else Firefox5_0))
      else a)"

text \<open>The bot test, lines 335 and 336.\<close>

definition bot_group :: "Configuration \<Rightarrow> string \<Rightarrow> UserAgent \<Rightarrow> UserAgent" where
  "bot_group conf ua a = (if agentIsBot conf ua then BotAgent else a)"

text \<open>
  \<open>setUserAgent\<close> stores the string, starts from \<open>Unknown\<close> and runs the five groups in
  the order of the source, each one overwriting the result of the ones before.
\<close>

definition classify ::
  "Configuration \<Rightarrow> (string \<Rightarrow> double option) \<Rightarrow> string \<Rightarrow> error + UserAgent" where
  "classify conf lcd ua =
     ebind (opera_group lcd ua (ie_group ua Unknown)) (\<lambda>a.
       Inr (bot_group conf ua (firefox_group ua (webkit_group ua a))))"

definition setUserAgent ::
  "Configuration \<Rightarrow> (string \<Rightarrow> double option) \<Rightarrow> string \<Rightarrow> WEnvironment
     \<Rightarrow> error + WEnvironment" where
  "setUserAgent conf lcd ua env =
     ebind (classify conf lcd (userAgent (env\<lparr>userAgent := ua\<rparr>))) (\<lambda>a.
       Inr (env\<lparr>userAgent := ua, agent := a\<rparr>))"


section \<open>The client address (\<open>WEnvironment::getClientAddress\<close>)\<close>

text \<open>
  Modelled from the spec: \<open>Utils::insert\<close>, whose body is not in the source file, appends
  the second vector to the first (the candidate list is the \<open>Client-IP\<close> entries followed
  by the \<open>X-Forwarded-For\<close> entries).
\<close>

definition Utils_insert :: "'a list \<Rightarrow> 'a list \<Rightarrow> 'a list" where
  "Utils_insert result elements = result @ elements"

text \<open>
  Lines 147 to 161: each of the two headers is trimmed, and split at commas when it is
  not empty; the candidates are the two lists, appended.
\<close>

definition header_ips :: "WebRequest \<Rightarrow> string \<Rightarrow> string list" where
  "header_ips request name =
     (let h = boost_trim (req_headerValue request name)
      in if h \<noteq> [] then boost_split '','' h else [])"

definition candidate_ips :: "WebRequest \<Rightarrow> string list" where
  "candidate_ips request =
     Utils_insert (header_ips request ''Client-IP'') (header_ips request ''X-Forwarded-For'')"

definition is_private :: "string \<Rightarrow> bool" where
  "is_private r =
     (starts_with r ''10.'' \<or> starts_with r ''172.16.'' \<or> starts_with r ''192.168.'')"

text \<open>
  The loop of lines 163 to 174 over the remaining candidates. The second argument is the
  variable \<open>result\<close>: every iteration overwrites it with the trimmed candidate, and the
  loop is left when that candidate is neither empty nor private.
\<close>

fun scan_ips :: "string list \<Rightarrow> string \<Rightarrow> string" where
  "scan_ips [] result = result"
| "scan_ips (ip # ips) result =
     (let r = boost_trim ip
      in if r \<noteq> [] \<and> \<not> starts_with r ''10.'' \<and> \<not> starts_with r ''172.16.''
            \<and> \<not> starts_with r ''192.168.''
         then r else scan_ips ips r)"

definition getClientAddress :: "WebRequest \<Rightarrow> Configuration \<Rightarrow> string" where
  "getClientAddress request conf =
     (let result = (if behindReverseProxy conf then scan_ips (candidate_ips request) [] else [])
      in if result = [] then req_envValue request ''REMOTE_ADDR'' else result)"


section \<open>Cookies (\<open>WEnvironment::parseCookies\<close>)\<close>

text \<open>
  \<open>Wt::Utils::urlDecode\<close> is not in the source file; the parser takes it as the
  parameter \<open>decode\<close>. The body of the loop, lines 455 to 467, for one entry of the
  list:
\<close>

definition parseCookies_entry ::
  "(string \<Rightarrow> string) \<Rightarrow> string \<Rightarrow> (string \<rightharpoonup> string) \<Rightarrow> error + (string \<rightharpoonup> string)" where
  "parseCookies_entry decode entry result =
     (let e = find_chr entry CHR ''='' in
      ebind (substr entry 0 e) (\<lambda>cookieName.
      ebind (case e of
               None \<Rightarrow> Inr []
             | Some k \<Rightarrow> if k + 1 < length entry then substr entry (k + 1) None else Inr [])
        (\<lambda>cookieValue.
      let cookieName = decode (boost_trim cookieName);
          cookieValue = decode (boost_trim cookieValue)
      in Inr (if cookieName \<noteq> [] then result(cookieName \<mapsto> cookieValue) else result))))"

fun parseCookies_loop ::
  "(string \<Rightarrow> string) \<Rightarrow> string list \<Rightarrow> (string \<rightharpoonup> string) \<Rightarrow> error + (string \<rightharpoonup> string)" where
  "parseCookies_loop decode [] result = Inr result"
| "parseCookies_loop decode (entry # rest) result =
     ebind (parseCookies_entry decode entry result) (parseCookies_loop decode rest)"

definition parseCookies ::
  "(string \<Rightarrow> string) \<Rightarrow> string \<Rightarrow> (string \<rightharpoonup> string) \<Rightarrow> error + (string \<rightharpoonup> string)" where
  "parseCookies decode cookie result =
     parseCookies_loop decode (boost_split '';'' cookie) result"

subsection \<open>The reference algorithm of the specification\<close>

text \<open>
  The specification's cookie parser, written from its words and independently of the
  code: cut the header at every \<open>;\<close>; in each entry the name is what stands before the
  first \<open>=\<close> and the value is what follows it (nothing when there is no \<open>=\<close>); trim
  both, then decode both; drop an entry whose decoded name is empty; go through the
  entries in header order, a later one overwriting an earlier one of the same name.
\<close>

function spec_split :: "char \<Rightarrow> string \<Rightarrow> string list" where
  "spec_split sep s =
     (case dropWhile (\<lambda>c. c \<noteq> sep) s of
        [] \<Rightarrow> [s]
      | c # rest \<Rightarrow> takeWhile (\<lambda>c. c \<noteq> sep) s # spec_split sep rest)"
  by pat_completeness auto
termination
proof (relation "measure (\<lambda>(sep, s). length s)")
  show "wf (measure (\<lambda>(sep, s). length s))" by simp
next
  fix sep :: char and s :: string and c rest
  assume "dropWhile (\<lambda>c. c \<noteq> sep) s = c # rest"
  then have "length rest < length (dropWhile (\<lambda>c. c \<noteq> sep) s)" by simp
  also have "\<dots> \<le> length s" by (rule length_dropWhile_le)
  finally show "((sep, rest), (sep, s)) \<in> measure (\<lambda>(sep, s). length s)" by simp
qed

declare spec_split.simps [simp del]

definition spec_cookie :: "(string \<Rightarrow> string) \<Rightarrow> string \<Rightarrow> string \<times> string" where
  "spec_cookie decode entry =
     (let name = takeWhile (\<lambda>c. c \<noteq> CHR ''='') entry;
          val = drop 1 (dropWhile (\<lambda>c. c \<noteq> CHR ''='') entry)
      in (decode (boost_trim name), decode (boost_trim val)))"

definition spec_store :: "(string \<rightharpoonup> string) \<Rightarrow> string \<times> string \<Rightarrow> (string \<rightharpoonup> string)" where
  "spec_store m nv = (if fst nv = [] then m else m(fst nv \<mapsto> snd nv))"

definition spec_parseCookies ::
  "(string \<Rightarrow> string) \<Rightarrow> string \<Rightarrow> (string \<rightharpoonup> string) \<Rightarrow> (string \<rightharpoonup> string)" where
  "spec_parseCookies decode header m =
     foldl spec_store m (map (spec_cookie decode) (spec_split CHR '';'' header))"

subsection \<open>Percent-encoding\<close>

text \<open>
  Modelled from the spec: \<open>Wt::Utils::urlEncode\<close> and \<open>Wt::Utils::urlDecode\<close> are not in
  the source file, and the specification says no more than "percent-encoding" and
  "percent-decode". The encoder writes every byte that is not a letter, a digit or one
  of \<open>- . _ ~\<close> as \<open>%\<close> and two hexadecimal digits; the decoder turns \<open>%\<close> and two
  hexadecimal digits into the byte and copies every other character.
\<close>

definition hex_digit :: "nat \<Rightarrow> char" where
  "hex_digit n = ''0123456789ABCDEF'' ! n"

definition hex_val :: "char \<Rightarrow> nat option" where
  "hex_val c =
     (let n = (of_char c :: nat)
      in if 48 \<le> n \<and> n \<le> 57 then Some (n - 48)
         else if 65 \<le> n \<and> n \<le> 70 then Some (n - 55)
         else if 97 \<le> n \<and> n \<le> 102 then Some (n - 87)
         else None)"

definition unreserved :: "char \<Rightarrow> bool" where
  "unreserved c =
     (let n = (of_char c :: nat)
      in (48 \<le> n \<and> n \<le> 57) \<or> (65 \<le> n \<and> n \<le> 90) \<or> (97 \<le> n \<and> n \<le> 122)
         \<or> c \<in> set ''-._~'')"

text \<open>The control characters of ASCII: the codes below 32, and 127.\<close>

definition is_control :: "char \<Rightarrow> bool" where
  "is_control c = ((of_char c :: nat) < 32 \<or> (of_char c :: nat) = 127)"

definition urlEncode_char :: "char \<Rightarrow> string" where
  "urlEncode_char c =
     (if unreserved c then [c]
      else [CHR ''%'', hex_digit (of_char c div 16), hex_digit (of_char c mod 16)])"

definition urlEncode :: "string \<Rightarrow> string" where
  "urlEncode s = concat (map urlEncode_char s)"

fun urlDecode :: "string \<Rightarrow> string" where
  "urlDecode (c # h1 # h2 # cs) =
     (if c = CHR ''%'' then
        (case (hex_val h1, hex_val h2) of
           (Some a, Some b) \<Rightarrow> char_of (16 * a + b) # urlDecode cs
         | _ \<Rightarrow> c # urlDecode (h1 # h2 # cs))
      else c # urlDecode (h1 # h2 # cs))"
| "urlDecode (c # cs) = c # urlDecode cs"
| "urlDecode [] = []"


section \<open>Phase 1 (\<open>WEnvironment::init\<close>)\<close>

text \<open>
  The constructors, lines 26 to 48: the two flags and the hash flag are false, the scale
  is 1 and the offset 0, strings and maps are empty. \<open>agent_\<close> is not initialised by the
  constructor, so its first value is a parameter.
\<close>

definition new_WEnvironment :: "UserAgent \<Rightarrow> WEnvironment" where
  "new_WEnvironment a =
     \<lparr> doesAjax = False, doesCookies = False, hashInternalPaths = False,
       dpiScale = Finite 1, timeZoneOffset = 0,
       queryString = [], parameters = Map.empty, cookies = Map.empty, env_locale = [],
       host = [], userAgent = [], urlScheme = [], referer = [], accept = [],
       serverSignature = [], serverSoftware = [], serverAdmin = [], clientAddress = [],
       pathInfo = [], internalPath = [], publicDeploymentPath = [], sslInfo = None,
       agent = a \<rparr>"

text \<open>The host name, lines 100 to 125.\<close>

definition init_host :: "Configuration \<Rightarrow> WebRequest \<Rightarrow> error + string" where
  "init_host conf request =
     ebind
       (if behindReverseProxy conf then
          (let forwardedHost = req_headerValue request ''X-Forwarded-Host''
           in if forwardedHost \<noteq> [] then
                (case rfind_chr forwardedHost CHR '','' of
                   None \<Rightarrow> Inr forwardedHost
                 | Some i \<Rightarrow> substr forwardedHost (i + 1) None)
              else Inr (req_headerValue request ''Host''))
        else Inr (req_headerValue request ''Host''))
       (\<lambda>h. Inr (if h = [] then
                    req_serverName request
                      @ (if req_serverPort request \<noteq> [] then '':'' @ req_serverPort request
                         else [])
                  else h))"

text \<open>
  \<open>init\<close>, lines 75 to 136, in the order of the source; the log line is left out.
\<close>

definition init ::
  "Configuration \<Rightarrow> (string \<Rightarrow> double option) \<Rightarrow> (string \<Rightarrow> string) \<Rightarrow> WebRequest
     \<Rightarrow> WEnvironment \<Rightarrow> error + WEnvironment" where
  "init conf lcd decode request env =
     (let env1 = env\<lparr> queryString := req_queryString request,
                      parameters := req_getParameterMap request,
                      urlScheme := req_urlScheme request,
                      referer := req_headerValue request ''Referer'',
                      accept := req_headerValue request ''Accept'',
                      serverSignature := req_envValue request ''SERVER_SIGNATURE'',
                      serverSoftware := req_envValue request ''SERVER_SOFTWARE'',
                      serverAdmin := req_envValue request ''SERVER_ADMIN'',
                      pathInfo := req_pathInfo request,
                      sslInfo := req_sslInfo request \<rparr>
      in ebind (setUserAgent conf lcd (req_headerValue request ''User-Agent'') env1) (\<lambda>env2.
         ebind (init_host conf request) (\<lambda>h.
         let env3 = env2\<lparr> host := h, clientAddress := getClientAddress request conf \<rparr>;
             cookie = req_headerValue request ''Cookie'';
             env4 = env3\<lparr> doesCookies := (cookie \<noteq> []) \<rparr>
         in ebind (if doesCookies env4 then parseCookies decode cookie (cookies env4)
                   else Inr (cookies env4)) (\<lambda>cm.
            Inr (env4\<lparr> cookies := cm, env_locale := req_parseLocale request \<rparr>)))))"


section \<open>Phase 2 (\<open>WEnvironment::enableAjax\<close>)\<close>

text \<open>
  Modelled from the spec: \<open>Utils::prepend\<close>, whose body is not in the source file, makes
  a path start with the given character (a non-empty internal path is normalised to
  start with \<open>/\<close>).
\<close>

definition Utils_prepend :: "string \<Rightarrow> char \<Rightarrow> string" where
  "Utils_prepend s c = (case s of [] \<Rightarrow> [c] | x # xs \<Rightarrow> if x = c then s else c # s)"

definition setInternalPath :: "string \<Rightarrow> WEnvironment \<Rightarrow> WEnvironment" where
  "setInternalPath path env =
     (if path = [] then env\<lparr>internalPath := path\<rparr>
      else env\<lparr>internalPath := Utils_prepend path CHR ''/''\<rparr>)"

text \<open>
  A \<open>try\<close> block whose only handler catches \<open>bad_lexical_cast\<close> and runs \<open>handler\<close>; any
  other exception leaves the block.
\<close>

definition catch_bad_lexical_cast :: "error + 'a \<Rightarrow> 'a \<Rightarrow> error + 'a" where
  "catch_bad_lexical_cast body handler =
     (case body of
        Inr v \<Rightarrow> Inr v
      | Inl BadLexicalCast \<Rightarrow> Inr handler
      | Inl e \<Rightarrow> Inl e)"

text \<open>
  \<open>enableAjax\<close>, lines 183 to 222, in the order of the source. The call
  \<open>newAjaxSession()\<close> of line 186 acts on the controller, which is not part of the
  environment, and is left out.
\<close>

definition enableAjax ::
  "(string \<Rightarrow> double option) \<Rightarrow> (string \<Rightarrow> int option) \<Rightarrow> WebRequest \<Rightarrow> WEnvironment
     \<Rightarrow> error + WEnvironment" where
  "enableAjax lcd lci request env =
     (let env1 = env\<lparr>doesAjax := True\<rparr>;
          env2 = env1\<lparr>doesCookies := (req_headerValue request ''Cookie'' \<noteq> [])\<rparr>;
          env3 = (if req_getParameter request ''htmlHistory'' = None
                  then env2\<lparr>hashInternalPaths := True\<rparr> else env2);
          scaleE = req_getParameter request ''scale''
      in ebind
           (catch_bad_lexical_cast
              (ebind (case scaleE of Some s \<Rightarrow> lexical_cast lcd s | None \<Rightarrow> Inr (Finite 1))
                 (\<lambda>d. Inr (env3\<lparr>dpiScale := d\<rparr>)))
              (env3\<lparr>dpiScale := Finite 1\<rparr>)) (\<lambda>env4.
         let tzE = req_getParameter request ''tz''
         in ebind
              (catch_bad_lexical_cast
                 (ebind (case tzE of Some s \<Rightarrow> lexical_cast lci s | None \<Rightarrow> Inr 0)
                    (\<lambda>z. Inr (env4\<lparr>timeZoneOffset := z\<rparr>)))
                 env4) (\<lambda>env5.
         let hashE = req_getParameter request ''_'';
             env6 = (case hashE of Some h \<Rightarrow> setInternalPath h env5 | None \<Rightarrow> env5);
             deployPathE = req_getParameter request ''deployPath'';
             env7 = (case deployPathE of
                       None \<Rightarrow> env6
                     | Some d \<Rightarrow>
                         (let env' = env6\<lparr>publicDeploymentPath := d\<rparr>;
                              s = find_chr (publicDeploymentPath env') CHR ''/''
                          in if s \<noteq> Some 0 then env'\<lparr>publicDeploymentPath := []\<rparr>
                             else env'))
         in Inr env7)))"



section \<open>Sample inputs\<close>

text \<open>
  Concrete collaborators for evaluating the operations: a configuration whose bot
  predicate looks for \<open>Googlebot\<close>, conversions that accept the two numbers used below
  and throw on everything else, and a request built from a map of headers, a map of
  single-valued parameters and the remote address.
\<close>

definition sample_conf :: "bool \<Rightarrow> Configuration" where
  "sample_conf proxy =
     \<lparr> behindReverseProxy = proxy, agentIsBot = (\<lambda>ua. contains ua ''Googlebot'') \<rparr>"

definition sample_double :: "string \<Rightarrow> double option" where
  "sample_double = [''2'' \<mapsto> Finite 2, ''11.5'' \<mapsto> Finite (23 / 2)]"

definition sample_int :: "string \<Rightarrow> int option" where
  "sample_int = [''60'' \<mapsto> 60, ''-120'' \<mapsto> - 120]"

definition sample_request ::
  "(string \<rightharpoonup> string) \<Rightarrow> (string \<rightharpoonup> string) \<Rightarrow> string \<Rightarrow> WebRequest" where
  "sample_request headers params remote =
     \<lparr> req_queryString = [],
       req_getParameterMap = (\<lambda>name. map_option (\<lambda>v. [v]) (params name)),
       req_getParameter = params,
       req_urlScheme = ''http'',
       req_headerValue = (\<lambda>name. case headers name of None \<Rightarrow> [] | Some v \<Rightarrow> v),
       req_envValue = (\<lambda>name. if name = ''REMOTE_ADDR'' then remote else []),
       req_pathInfo = [],
       req_sslInfo = None,
       req_serverName = ''localhost'',
       req_serverPort = ''8080'',
       req_parseLocale = ''en'' \<rparr>"


section \<open>Facts about the string operations\<close>

lemma find_str_bound: "find_str s p = Some i \<Longrightarrow> i + length p \<le> length s"
proof (induction s arbitrary: i)
  case Nil
  then show ?case by (simp split: if_splits)
next
  case (Cons c cs)
  show ?case
  proof (cases "prefix p (c # cs)")
    case True
    with Cons.prems have "i = 0" by simp
    moreover from True have "length p \<le> length (c # cs)" by (rule prefix_length_le)
    ultimately show ?thesis by simp
  next
    case False
    with Cons.prems obtain j where "find_str cs p = Some j" "i = Suc j" by auto
    with Cons.IH show ?thesis by fastforce
  qed
qed

text \<open>A string that contains a token contains every prefix of the token.\<close>

lemma contains_append: "contains s (p @ q) \<Longrightarrow> contains s p"
  unfolding contains_def
proof (induction s)
  case Nil
  then show ?case by (simp split: if_splits)
next
  case (Cons c cs)
  then show ?case by (auto dest: append_prefixD split: if_splits)
qed

lemma substr_in_range: "pos \<le> length s \<Longrightarrow> \<exists>r. substr s pos n = Inr r"
  by (simp add: substr_def)

text \<open>
  What \<open>find\<close> of a character says about the string: nothing found means the character
  does not occur; a position found cuts the string there.
\<close>

lemma find_chr_None:
  "find_chr s ch = None \<Longrightarrow>
     takeWhile (\<lambda>c. c \<noteq> ch) s = s \<and> dropWhile (\<lambda>c. c \<noteq> ch) s = []"
  by (induction s) (auto split: if_splits)

lemma find_chr_Some:
  "find_chr s ch = Some k \<Longrightarrow>
     takeWhile (\<lambda>c. c \<noteq> ch) s = take k s \<and> dropWhile (\<lambda>c. c \<noteq> ch) s = drop k s
     \<and> k < length s"
proof (induction s arbitrary: k)
  case Nil
  then show ?case by simp
next
  case (Cons c cs)
  show ?case
  proof (cases "c = ch")
    case True
    with Cons.prems show ?thesis by simp
  next
    case False
    with Cons.prems obtain j where "find_chr cs ch = Some j" "k = Suc j" by auto
    with Cons.IH False show ?thesis by simp
  qed
qed

lemma find_chr_bound: "find_chr s ch = Some i \<Longrightarrow> i < length s"
  using find_chr_Some by blast

lemma rfind_chr_bound: "rfind_chr s ch = Some i \<Longrightarrow> i < length s"
  by (auto simp: rfind_chr_def split: option.splits dest: find_chr_bound)

lemma find_chr_append: "ch \<notin> set a \<Longrightarrow> find_chr (a @ ch # b) ch = Some (length a)"
  by (induction a) auto

lemma find_chr_first: "(find_chr d ch = Some 0) = starts_with d [ch]"
  by (cases d) (auto simp: starts_with_def)

lemma dropWhile_none: "\<forall>c\<in>set s. \<not> P c \<Longrightarrow> dropWhile P s = s"
  by (cases s) auto

lemma boost_trim_no_space: "\<forall>c\<in>set s. \<not> is_space c \<Longrightarrow> boost_trim s = s"
  by (simp add: boost_trim_def dropWhile_none)

lemma boost_trim_Nil: "boost_trim [] = []"
  by (simp add: boost_trim_def)

lemma boost_split_no_sep: "sep \<notin> set s \<Longrightarrow> boost_split [sep] s = [s]"
  by (induction s) auto


section \<open>Properties of the classifier\<close>

text \<open>
  The Opera block never throws: the position found for \<open>Version/\<close> leaves at least
  eight characters, so \<open>substr\<close> is in range, and the failed conversion is caught.
\<close>

lemma opera_version_returns: "\<exists>a. opera_version lcd ua = Inr a"
proof (cases "find_str ua ''Version/''")
  case None
  then show ?thesis by (simp add: opera_version_def)
next
  case (Some t)
  then have "t + 8 \<le> length ua" using find_str_bound[of ua "''Version/''" t] by simp
  then obtain vs where vs: "substr ua (t + 8) None = Inr vs"
    using substr_in_range by blast
  obtain vs' where vs':
    "(case find_chr vs CHR '' '' of None \<Rightarrow> Inr vs | Some t' \<Rightarrow> substr vs 0 (Some t')) = Inr vs'"
    by (cases "find_chr vs CHR '' ''") (auto simp: substr_def)
  show ?thesis using Some vs vs'
    by (auto simp: opera_version_def ebind_def lexical_cast_def
             split: option.splits sum.splits error.splits)
qed

lemma opera_group_returns: "\<exists>a. opera_group lcd ua a0 = Inr a"
  using opera_version_returns by (simp add: opera_group_def)

lemma classify_returns:
  "\<exists>a0. classify conf lcd ua = Inr (bot_group conf ua (firefox_group ua (webkit_group ua a0)))"
proof -
  obtain a where "opera_group lcd ua (ie_group ua Unknown) = Inr a"
    using opera_group_returns by blast
  then show ?thesis by (auto simp: classify_def ebind_def)
qed

lemma setUserAgent_returns:
  "\<exists>a0. setUserAgent conf lcd ua env =
     Inr (env\<lparr>userAgent := ua,
              agent := bot_group conf ua (firefox_group ua (webkit_group ua a0))\<rparr>)"
proof -
  obtain a0 where
    "classify conf lcd ua = Inr (bot_group conf ua (firefox_group ua (webkit_group ua a0)))"
    using classify_returns by blast
  then show ?thesis by (auto simp: setUserAgent_def ebind_def)
qed

text \<open>
  The test for \<open>Firefox/3.1\<close> stands before the test for \<open>Firefox/3.1b\<close> and succeeds
  whenever the latter would: the Firefox block never assigns \<open>Firefox3_1b\<close>.
\<close>

lemma firefox_3_1b_is_3_1:
  assumes "contains ua ''Firefox/3.1b''"
    and "\<not> contains ua ''Firefox/0.''" "\<not> contains ua ''Firefox/1.''"
    and "\<not> contains ua ''Firefox/2.''" "\<not> contains ua ''Firefox/3.0''"
  shows "firefox_group ua a = Firefox3_1"
proof -
  have "contains ua ''Firefox''"
    using contains_append[of ua "''Firefox''" "''/3.1b''"] assms(1) by simp
  moreover have "contains ua ''Firefox/3.1''"
    using contains_append[of ua "''Firefox/3.1''" "''b''"] assms(1) by simp
  ultimately show ?thesis using assms by (simp add: firefox_group_def)
qed

lemma firefox_group_never_3_1b: "a \<noteq> Firefox3_1b \<Longrightarrow> firefox_group ua a \<noteq> Firefox3_1b"
  using contains_append[of ua "''Firefox/3.1''" "''b''"]
  by (simp add: firefox_group_def)

text \<open>
  Claim C2. A user agent that contains \<open>Firefox/3.1b\<close>, is not a bot and contains none
  of \<open>Firefox/0.\<close>, \<open>Firefox/1.\<close>, \<open>Firefox/2.\<close>, \<open>Firefox/3.0\<close> should be classified as
  \<open>Firefox3_1b\<close>. The code does not do so: on the user agent of a Firefox 3.1 beta 3,
  which satisfies all the conditions of the claim, \<open>setUserAgent\<close> assigns \<open>Firefox3_1\<close>.
\<close>

theorem C2_firefox_3_1b_classified_as_3_1:
  "contains ''Mozilla/5.0 (X11; U; Linux i686; rv:1.9.1b3) Gecko/20090305 Firefox/3.1b3''
      ''Firefox/3.1b''
   \<and> \<not> agentIsBot (sample_conf False)
          ''Mozilla/5.0 (X11; U; Linux i686; rv:1.9.1b3) Gecko/20090305 Firefox/3.1b3''
   \<and> \<not> contains ''Mozilla/5.0 (X11; U; Linux i686; rv:1.9.1b3) Gecko/20090305 Firefox/3.1b3''
          ''Firefox/0.''
   \<and> \<not> contains ''Mozilla/5.0 (X11; U; Linux i686; rv:1.9.1b3) Gecko/20090305 Firefox/3.1b3''
          ''Firefox/1.''
   \<and> \<not> contains ''Mozilla/5.0 (X11; U; Linux i686; rv:1.9.1b3) Gecko/20090305 Firefox/3.1b3''
          ''Firefox/2.''
   \<and> \<not> contains ''Mozilla/5.0 (X11; U; Linux i686; rv:1.9.1b3) Gecko/20090305 Firefox/3.1b3''
          ''Firefox/3.0''
   \<and> setUserAgent (sample_conf False) sample_double
        ''Mozilla/5.0 (X11; U; Linux i686; rv:1.9.1b3) Gecko/20090305 Firefox/3.1b3''
        (new_WEnvironment Unknown)
      = Inr ((new_WEnvironment Unknown)
          \<lparr>userAgent :=
             ''Mozilla/5.0 (X11; U; Linux i686; rv:1.9.1b3) Gecko/20090305 Firefox/3.1b3'',
           agent := Firefox3_1\<rparr>)"
  by (simp add: setUserAgent_def classify_def ebind_def bot_group_def firefox_group_def
        webkit_group_def opera_group_def ie_group_def contains_def sample_conf_def)

text \<open>
  Claim C3. A user agent that contains a WebKit-family token (\<open>Chrome\<close>, \<open>Safari\<close> or
  \<open>WebKit\<close>) and \<open>Firefox/3.6\<close>, is not a bot and contains none of the Firefox version
  tokens tested before \<open>Firefox/3.6\<close>, is classified as \<open>Firefox3_6\<close>: the Firefox block
  overwrites what the WebKit chain assigned.
\<close>

theorem C3_firefox_3_6_overrides_webkit:
  assumes "contains ua ''Chrome'' \<or> contains ua ''Safari'' \<or> contains ua ''WebKit''"
    and "contains ua ''Firefox/3.6''"
    and "\<not> agentIsBot conf ua"
    and "\<not> contains ua ''Firefox/0.''" "\<not> contains ua ''Firefox/1.''"
    and "\<not> contains ua ''Firefox/2.''" "\<not> contains ua ''Firefox/3.0''"
    and "\<not> contains ua ''Firefox/3.1''" "\<not> contains ua ''Firefox/3.1b''"
    and "\<not> contains ua ''Firefox/3.5''"
  shows "\<exists>env'. setUserAgent conf lcd ua env = Inr env' \<and> agent env' = Firefox3_6
           \<and> userAgent env' = ua"
proof -
  have ff: "contains ua ''Firefox''"
    using contains_append[of ua "''Firefox''" "''/3.6''"] assms(2) by simp
  have "firefox_group ua a = Firefox3_6" for a
    using ff assms by (simp add: firefox_group_def)
  then have "bot_group conf ua (firefox_group ua a) = Firefox3_6" for a
    using assms(3) by (simp add: bot_group_def)
  moreover obtain a0 where
    "setUserAgent conf lcd ua env =
       Inr (env\<lparr>userAgent := ua,
                agent := bot_group conf ua (firefox_group ua (webkit_group ua a0))\<rparr>)"
    using setUserAgent_returns by blast
  ultimately show ?thesis by simp
qed

theorem C3_firefox_3_6_overrides_webkit_witness:
  "webkit_group ''Mozilla/5.0 AppleWebKit/533.1 Firefox/3.6'' Unknown = WebKit
   \<and> (\<exists>env'. setUserAgent (sample_conf False) sample_double
                ''Mozilla/5.0 AppleWebKit/533.1 Firefox/3.6'' (new_WEnvironment Unknown)
              = Inr env'
            \<and> agent env' = Firefox3_6
            \<and> userAgent env' = ''Mozilla/5.0 AppleWebKit/533.1 Firefox/3.6'')"
proof -
  have wk: "webkit_group ''Mozilla/5.0 AppleWebKit/533.1 Firefox/3.6'' Unknown = WebKit"
    by (simp add: webkit_group_def contains_def)
  show ?thesis
    using wk
      C3_firefox_3_6_overrides_webkit[of "''Mozilla/5.0 AppleWebKit/533.1 Firefox/3.6''"
        "sample_conf False" sample_double "new_WEnvironment Unknown"]
    by (simp add: contains_def sample_conf_def)
qed

text \<open>
  Claim C4. When the bot predicate of the configuration holds of the user agent,
  \<open>setUserAgent\<close> returns with the agent \<open>BotAgent\<close>, whatever tokens the string contains.
\<close>

theorem C4_bot_overrides_everything:
  assumes "agentIsBot conf ua"
  shows "\<exists>env'. setUserAgent conf lcd ua env = Inr env' \<and> agent env' = BotAgent"
proof -
  obtain a0 where
    "setUserAgent conf lcd ua env =
       Inr (env\<lparr>userAgent := ua,
                agent := bot_group conf ua (firefox_group ua (webkit_group ua a0))\<rparr>)"
    using setUserAgent_returns by blast
  then show ?thesis using assms by (simp add: bot_group_def)
qed

theorem C4_bot_overrides_everything_witness:
  "firefox_group ''Googlebot Chrome/4.0 Firefox/3.6''
      (webkit_group ''Googlebot Chrome/4.0 Firefox/3.6'' Unknown) = Firefox3_6
   \<and> (\<exists>env'. setUserAgent (sample_conf False) sample_double
                ''Googlebot Chrome/4.0 Firefox/3.6'' (new_WEnvironment Unknown)
              = Inr env'
            \<and> agent env' = BotAgent)"
proof -
  have ff: "firefox_group ''Googlebot Chrome/4.0 Firefox/3.6''
      (webkit_group ''Googlebot Chrome/4.0 Firefox/3.6'' Unknown) = Firefox3_6"
    by (simp add: firefox_group_def contains_def)
  show ?thesis
    using ff
      C4_bot_overrides_everything[of "sample_conf False"
        "''Googlebot Chrome/4.0 Firefox/3.6''" sample_double "new_WEnvironment Unknown"]
    by (simp add: contains_def sample_conf_def)
qed


section \<open>Properties of the client address\<close>

text \<open>
  When no candidate leaves the loop, the variable \<open>result\<close> ends as the last candidate,
  trimmed: line 164 assigns the candidate before the test of lines 168 to 171, and
  nothing clears the variable when the test skips it.
\<close>

lemma scan_ips_all_skipped:
  assumes "\<forall>ip\<in>set ips. boost_trim ip = [] \<or> is_private (boost_trim ip)"
  shows "scan_ips ips r = (if ips = [] then r else boost_trim (last ips))"
  using assms
proof (induction ips arbitrary: r)
  case Nil
  then show ?case by simp
next
  case (Cons ip ips)
  from Cons.prems have skip: "boost_trim ip = [] \<or> is_private (boost_trim ip)" by simp
  from Cons.prems have rest: "\<forall>ip\<in>set ips. boost_trim ip = [] \<or> is_private (boost_trim ip)"
    by simp
  from skip have "scan_ips (ip # ips) r = scan_ips ips (boost_trim ip)"
    by (auto simp: is_private_def Let_def)
  also have "\<dots> = (if ips = [] then boost_trim ip else boost_trim (last ips))"
    using Cons.IH[OF rest] .
  finally show ?case by simp
qed

text \<open>
  Hence, when every candidate is skipped, the resolved address is the last candidate,
  trimmed, unless that is empty; the fallback of line 177 to the remote address is
  reached only through an empty \<open>result\<close>.
\<close>

lemma getClientAddress_all_skipped:
  assumes "behindReverseProxy conf"
    and "\<forall>ip\<in>set (candidate_ips request). boost_trim ip = [] \<or> is_private (boost_trim ip)"
  shows "getClientAddress request conf =
           (if candidate_ips request = [] \<or> boost_trim (last (candidate_ips request)) = []
            then req_envValue request ''REMOTE_ADDR''
            else boost_trim (last (candidate_ips request)))"
  using assms(1) scan_ips_all_skipped[OF assms(2), of "[]"]
  by (simp add: getClientAddress_def)

text \<open>
  The outcome depends on where an empty entry stands among the skipped candidates:
  \<open>Client-IP: 10.0.0.1, ,\<close> resolves to the remote address, \<open>Client-IP: ,10.0.0.1\<close> to
  the private address.
\<close>

lemma getClientAddress_order_of_skipped:
  "getClientAddress (sample_request [''Client-IP'' \<mapsto> ''10.0.0.1, ,''] Map.empty ''203.0.113.5'')
     (sample_conf True) = ''203.0.113.5''
   \<and> getClientAddress (sample_request [''Client-IP'' \<mapsto> '',10.0.0.1''] Map.empty ''203.0.113.5'')
     (sample_conf True) = ''10.0.0.1''"
  by (simp add: getClientAddress_def candidate_ips_def header_ips_def Utils_insert_def
        sample_request_def sample_conf_def boost_trim_def is_space_def starts_with_def)

text \<open>
  Claim C1. With the reverse proxy trusted, a combined list whose candidates are all
  empty or private after trimming should resolve to the remote address. The code does
  not do so: with \<open>Client-IP: 10.0.0.1\<close>, no \<open>X-Forwarded-For\<close> and the remote address
  \<open>203.0.113.5\<close>, the only candidate is private, and \<open>getClientAddress\<close> returns that
  candidate, \<open>10.0.0.1\<close>.
\<close>

theorem C1_private_candidate_returned:
  "behindReverseProxy (sample_conf True)
   \<and> candidate_ips (sample_request [''Client-IP'' \<mapsto> ''10.0.0.1''] Map.empty ''203.0.113.5'')
       = [''10.0.0.1'']
   \<and> boost_trim ''10.0.0.1'' = ''10.0.0.1''
   \<and> starts_with ''10.0.0.1'' ''10.''
   \<and> req_envValue (sample_request [''Client-IP'' \<mapsto> ''10.0.0.1''] Map.empty ''203.0.113.5'')
        ''REMOTE_ADDR'' = ''203.0.113.5''
   \<and> getClientAddress (sample_request [''Client-IP'' \<mapsto> ''10.0.0.1''] Map.empty ''203.0.113.5'')
        (sample_conf True) = ''10.0.0.1''"
  by (simp add: getClientAddress_def candidate_ips_def header_ips_def Utils_insert_def
        sample_request_def sample_conf_def boost_trim_def is_space_def starts_with_def)


section \<open>Properties of the cookie parser\<close>

subsection \<open>The code against the reference algorithm\<close>

lemma parseCookies_entry_spec:
  "parseCookies_entry decode e m = Inr (spec_store m (spec_cookie decode e))"
proof (cases "find_chr e CHR ''=''")
  case None
  from find_chr_None[OF None]
  have tw: "takeWhile (\<lambda>c. c \<noteq> CHR ''='') e = e"
    and dw: "dropWhile (\<lambda>c. c \<noteq> CHR ''='') e = []" by blast+
  have sc: "spec_cookie decode e = (decode (boost_trim e), decode (boost_trim []))"
    unfolding spec_cookie_def tw dw by (simp add: Let_def)
  have "parseCookies_entry decode e m =
          Inr (if decode (boost_trim e) \<noteq> []
               then m(decode (boost_trim e) \<mapsto> decode (boost_trim [])) else m)"
    using None by (simp add: parseCookies_entry_def substr_def ebind_def Let_def)
  then show ?thesis unfolding sc by (simp add: spec_store_def)
next
  case (Some k)
  from find_chr_Some[OF Some]
  have tw: "takeWhile (\<lambda>c. c \<noteq> CHR ''='') e = take k e"
    and dw: "dropWhile (\<lambda>c. c \<noteq> CHR ''='') e = drop k e"
    and k: "k < length e" by blast+
  have sc: "spec_cookie decode e =
              (decode (boost_trim (take k e)), decode (boost_trim (drop (Suc k) e)))"
    unfolding spec_cookie_def tw dw by (simp add: Let_def)
  have v: "(if k + 1 < length e then substr e (k + 1) None else Inr []) = Inr (drop (Suc k) e)"
    by (simp add: substr_def)
  have "parseCookies_entry decode e m =
          Inr (if decode (boost_trim (take k e)) \<noteq> []
               then m(decode (boost_trim (take k e)) \<mapsto> decode (boost_trim (drop (Suc k) e)))
               else m)"
    using Some v by (simp add: parseCookies_entry_def substr_def ebind_def Let_def)
  then show ?thesis unfolding sc by (simp add: spec_store_def)
qed

lemma parseCookies_loop_spec:
  "parseCookies_loop decode es m = Inr (foldl spec_store m (map (spec_cookie decode) es))"
  by (induction es arbitrary: m) (simp_all add: parseCookies_entry_spec ebind_def)

lemma parseCookies_returns: "\<exists>cm. parseCookies decode cookie m = Inr cm"
  by (simp add: parseCookies_def parseCookies_loop_spec)

lemma spec_split_Nil: "spec_split sep [] = [[]]"
  by (subst spec_split.simps) simp

lemma spec_split_sep: "spec_split sep (sep # cs) = [] # spec_split sep cs"
  by (subst spec_split.simps) simp

lemma spec_split_other:
  assumes "c \<noteq> sep"
  shows "spec_split sep (c # cs) =
     (case spec_split sep cs of [] \<Rightarrow> [[c]] | w # ws \<Rightarrow> (c # w) # ws)"
proof -
  have step: "dropWhile (\<lambda>c. c \<noteq> sep) (c # cs) = dropWhile (\<lambda>c. c \<noteq> sep) cs"
    and tw: "takeWhile (\<lambda>c. c \<noteq> sep) (c # cs) = c # takeWhile (\<lambda>c. c \<noteq> sep) cs"
    using assms by simp_all
  show ?thesis
  proof (cases "dropWhile (\<lambda>c. c \<noteq> sep) cs")
    case Nil
    have "spec_split sep cs = [cs]"
      by (subst spec_split.simps) (simp only: Nil list.case)
    moreover have "spec_split sep (c # cs) = [c # cs]"
      by (subst spec_split.simps) (simp only: step Nil list.case)
    ultimately show ?thesis by simp
  next
    case (Cons x rest)
    have "spec_split sep cs = takeWhile (\<lambda>c. c \<noteq> sep) cs # spec_split sep rest"
      by (subst spec_split.simps) (simp only: Cons list.case)
    moreover have "spec_split sep (c # cs) =
        (c # takeWhile (\<lambda>c. c \<noteq> sep) cs) # spec_split sep rest"
      by (subst spec_split.simps) (simp only: step tw Cons list.case)
    ultimately show ?thesis by simp
  qed
qed

lemma boost_split_spec: "boost_split [sep] s = spec_split sep s"
  by (induction s) (simp_all add: spec_split_Nil spec_split_sep spec_split_other)

text \<open>
  Claim C5. For every decoder, header and starting map, \<open>parseCookies\<close> returns without
  an exception, and what it returns is the map of the reference algorithm: the header
  cut at \<open>;\<close> only, each entry cut at its first \<open>=\<close> (an empty value when there is none),
  name and value trimmed and then decoded, entries with an empty decoded name dropped,
  later entries overwriting earlier ones.
\<close>

theorem C5_parseCookies_is_reference_algorithm:
  "parseCookies decode header m = Inr (spec_parseCookies decode header m)"
  by (simp add: parseCookies_def spec_parseCookies_def parseCookies_loop_spec boost_split_spec)

theorem C5_parseCookies_is_reference_algorithm_witness:
  "\<exists>cm. parseCookies urlDecode ''a=1; b =%41;a=2;=x; c'' Map.empty = Inr cm
     \<and> cm ''a'' = Some ''2'' \<and> cm ''b'' = Some ''A'' \<and> cm ''c'' = Some [] \<and> cm [] = None"
proof -
  have "spec_split CHR '';'' ''a=1; b =%41;a=2;=x; c''
          = [''a=1'', '' b =%41'', ''a=2'', ''=x'', '' c'']"
    by (simp add: spec_split_Nil spec_split_sep spec_split_other)
  moreover have "char_of (of_char CHR ''A'' :: nat) = CHR ''A''" by (rule char_of_char)
  then have "char_of (65 :: nat) = CHR ''A''" by simp
  ultimately show ?thesis
    using C5_parseCookies_is_reference_algorithm[of urlDecode "''a=1; b =%41;a=2;=x; c''" Map.empty]
    by (simp add: spec_parseCookies_def spec_cookie_def spec_store_def boost_trim_def
          is_space_def hex_val_def)
qed

subsection \<open>Encoding, then parsing\<close>

lemma hex_table:
  "\<forall>n\<in>set [0..<16]. hex_val (hex_digit n) = Some n \<and> hex_digit n \<noteq> CHR '';''
     \<and> hex_digit n \<noteq> CHR ''='' \<and> \<not> is_space (hex_digit n)"
  by code_simp

lemma hex_digit_facts:
  assumes "n < 16"
  shows "hex_val (hex_digit n) = Some n" "hex_digit n \<noteq> CHR '';''"
    "hex_digit n \<noteq> CHR ''=''" "\<not> is_space (hex_digit n)"
proof -
  from assms have "n \<in> set [0..<16]" by simp
  with hex_table show "hex_val (hex_digit n) = Some n" "hex_digit n \<noteq> CHR '';''"
    "hex_digit n \<noteq> CHR ''=''" "\<not> is_space (hex_digit n)" by blast+
qed

lemma of_char_div16: "(of_char c :: nat) div 16 < 16"
proof -
  have "(of_char c :: nat) < 16 * 16" by simp
  then show ?thesis by (rule less_mult_imp_div_less)
qed

lemma unreserved_safe:
  assumes "unreserved c"
  shows "c \<noteq> CHR ''%''" "c \<noteq> CHR '';''" "c \<noteq> CHR ''=''" "\<not> is_space c"
  using assms by (auto simp: unreserved_def is_space_def)

lemma urlDecode_plain: "c \<noteq> CHR ''%'' \<Longrightarrow> urlDecode (c # cs) = c # urlDecode cs"
  by (cases "(c # cs)" rule: urlDecode.cases) auto

lemma urlDecode_char: "urlDecode (urlEncode_char c @ rest) = c # urlDecode rest"
proof (cases "unreserved c")
  case True
  then show ?thesis
    using unreserved_safe(1)[OF True] by (simp add: urlEncode_char_def urlDecode_plain)
next
  case False
  have "char_of (16 * ((of_char c :: nat) div 16) + of_char c mod 16) = c" by simp
  then show ?thesis using False
    by (simp add: urlEncode_char_def hex_digit_facts(1) of_char_div16)
qed

lemma urlDecode_urlEncode: "urlDecode (urlEncode s) = s"
  by (induction s) (simp_all add: urlEncode_def urlDecode_char)

lemma urlEncode_char_safe:
  "x \<in> set (urlEncode_char c) \<Longrightarrow> x \<noteq> CHR '';'' \<and> x \<noteq> CHR ''='' \<and> \<not> is_space x"
  using unreserved_safe[of c] hex_digit_facts[of "of_char c div 16"]
    hex_digit_facts[of "of_char c mod 16"] of_char_div16[of c]
  by (auto simp: urlEncode_char_def is_space_def split: if_splits)

lemma urlEncode_safe:
  "x \<in> set (urlEncode s) \<Longrightarrow> x \<noteq> CHR '';'' \<and> x \<noteq> CHR ''='' \<and> \<not> is_space x"
  using urlEncode_char_safe by (auto simp: urlEncode_def)

lemma urlEncode_Nil: "urlEncode s = [] \<longleftrightarrow> s = []"
  by (cases s) (auto simp: urlEncode_def urlEncode_char_def)

text \<open>
  In this model of the encoder the round trip holds for every non-empty name and every
  value: the encoder leaves no separator and no white space in its output.
\<close>

lemma parseCookies_roundtrip:
  assumes "name \<noteq> []"
  shows "parseCookies urlDecode (urlEncode name @ ''='' @ urlEncode val) m
           = Inr (m(name \<mapsto> val))"
proof -
  let ?n = "urlEncode name" and ?v = "urlEncode val"
  let ?h = "?n @ ''='' @ ?v"
  have nosemi: "CHR '';'' \<notin> set ?h" using urlEncode_safe by auto
  have noeq: "CHR ''='' \<notin> set ?n" using urlEncode_safe by auto
  have e: "find_chr ?h CHR ''='' = Some (length ?n)" using find_chr_append[OF noeq] by simp
  have tn: "boost_trim ?n = ?n" and tv: "boost_trim ?v = ?v"
    using urlEncode_safe by (auto intro!: boost_trim_no_space)
  have val: "(if length ?n + 1 < length ?h then substr ?h (length ?n + 1) None else Inr [])
               = Inr ?v"
    by (cases "?v = []") (simp_all add: substr_def)
  have "parseCookies_entry urlDecode ?h m = Inr (m(name \<mapsto> val))"
    using e val assms tn tv
    by (auto simp: parseCookies_entry_def ebind_def substr_def Let_def urlDecode_urlEncode
          urlEncode_Nil boost_trim_Nil)
  then show ?thesis
    using boost_split_no_sep[OF nosemi] by (simp add: parseCookies_def ebind_def)
qed

text \<open>
  Claim C6. For a non-empty name and a value whose characters are neither \<open>;\<close> nor \<open>=\<close>
  nor control characters, parsing the header \<open>enc(name)=enc(value)\<close> stores the original
  value under the original name.
\<close>

theorem C6_cookie_roundtrip:
  assumes "name \<noteq> []"
    and "\<forall>c\<in>set (name @ val). c \<noteq> CHR '';'' \<and> c \<noteq> CHR ''='' \<and> \<not> is_control c"
  shows "parseCookies urlDecode (urlEncode name @ ''='' @ urlEncode val) m
           = Inr (m(name \<mapsto> val))"
  using assms(1) by (rule parseCookies_roundtrip)

theorem C6_cookie_roundtrip_witness:
  "urlEncode ''user id'' @ ''='' @ urlEncode ''a b+c/%'' = ''user%20id=a%20b%2Bc%2F%25''
   \<and> parseCookies urlDecode (urlEncode ''user id'' @ ''='' @ urlEncode ''a b+c/%'') Map.empty
       = Inr [''user id'' \<mapsto> ''a b+c/%'']"
proof -
  have h1: "''user id'' \<noteq> []" by simp
  have h2: "\<forall>c\<in>set (''user id'' @ ''a b+c/%'').
              c \<noteq> CHR '';'' \<and> c \<noteq> CHR ''='' \<and> \<not> is_control c"
    by (simp add: is_control_def)
  have e: "urlEncode ''user id'' @ ''='' @ urlEncode ''a b+c/%'' = ''user%20id=a%20b%2Bc%2F%25''"
    by (simp add: urlEncode_def urlEncode_char_def unreserved_def hex_digit_def)
  show ?thesis using e C6_cookie_roundtrip[OF h1 h2, of Map.empty] by simp
qed


section \<open>Properties of phase 1\<close>

lemma init_host_returns: "\<exists>h. init_host conf request = Inr h"
proof -
  let ?fh = "req_headerValue request ''X-Forwarded-Host''"
  have "\<exists>h. (case rfind_chr ?fh CHR '','' of
               None \<Rightarrow> Inr ?fh
             | Some i \<Rightarrow> substr ?fh (i + 1) None) = Inr h"
  proof (cases "rfind_chr ?fh CHR '',''")
    case None
    then show ?thesis by simp
  next
    case (Some i)
    then have "i + 1 \<le> length ?fh" using rfind_chr_bound[OF Some] by simp
    then show ?thesis using Some substr_in_range by simp
  qed
  then show ?thesis by (auto simp: init_host_def ebind_def Let_def)
qed

text \<open>
  \<open>init\<close> returns; the flag is the test of the header, and the cookie map is what the
  parser made of the header, or the old map when the header is empty.
\<close>

lemma init_result:
  "\<exists>env'. init conf lcd decode request env = Inr env'
     \<and> doesCookies env' = (req_headerValue request ''Cookie'' \<noteq> [])
     \<and> (if req_headerValue request ''Cookie'' \<noteq> []
        then parseCookies decode (req_headerValue request ''Cookie'') (cookies env)
               = Inr (cookies env')
        else cookies env' = cookies env)"
proof -
  let ?env1 = "env\<lparr> queryString := req_queryString request,
                      parameters := req_getParameterMap request,
                      urlScheme := req_urlScheme request,
                      referer := req_headerValue request ''Referer'',
                      accept := req_headerValue request ''Accept'',
                      serverSignature := req_envValue request ''SERVER_SIGNATURE'',
                      serverSoftware := req_envValue request ''SERVER_SOFTWARE'',
                      serverAdmin := req_envValue request ''SERVER_ADMIN'',
                      pathInfo := req_pathInfo request,
                      sslInfo := req_sslInfo request \<rparr>"
  let ?ua = "req_headerValue request ''User-Agent''"
  obtain a0 where ua: "setUserAgent conf lcd ?ua ?env1 =
     Inr (?env1\<lparr>userAgent := ?ua,
                agent := bot_group conf ?ua (firefox_group ?ua (webkit_group ?ua a0))\<rparr>)"
    using setUserAgent_returns by blast
  obtain h where h: "init_host conf request = Inr h" using init_host_returns by blast
  obtain cm where
    cm: "parseCookies decode (req_headerValue request ''Cookie'') (cookies env) = Inr cm"
    using parseCookies_returns by blast
  show ?thesis
    by (simp add: init_def Let_def ua h cm ebind_def)
qed

lemma parseCookies_semicolon: "decode [] = [] \<Longrightarrow> parseCookies decode '';'' m = Inr m"
  by (simp add: parseCookies_def parseCookies_entry_def ebind_def substr_def boost_trim_Nil)

text \<open>
  Claim C7. \<open>init\<close> returns, and afterwards the cookie-support flag is true if and only
  if the \<open>Cookie\<close> header of the request is not empty, whatever the parser made of it:
  for the header \<open>;\<close> (and a decoder that maps the empty string to itself) the flag is
  true and the cookie map has gained no entry.
\<close>

theorem C7_cookie_support_flag:
  "\<exists>env'. init conf lcd decode request env = Inr env'
     \<and> doesCookies env' = (req_headerValue request ''Cookie'' \<noteq> [])
     \<and> (decode [] = [] \<longrightarrow> req_headerValue request ''Cookie'' = '';''
          \<longrightarrow> doesCookies env' \<and> cookies env' = cookies env)"
proof -
  obtain env' where r: "init conf lcd decode request env = Inr env'"
    and d: "doesCookies env' = (req_headerValue request ''Cookie'' \<noteq> [])"
    and c: "if req_headerValue request ''Cookie'' \<noteq> []
        then parseCookies decode (req_headerValue request ''Cookie'') (cookies env)
               = Inr (cookies env')
        else cookies env' = cookies env"
    using init_result by blast
  have "cookies env' = cookies env"
    if "decode [] = []" "req_headerValue request ''Cookie'' = '';''"
    using c that parseCookies_semicolon[of decode "cookies env"] by simp
  then show ?thesis using r d by auto
qed

theorem C7_cookie_support_flag_witness:
  "\<exists>env'. init (sample_conf False) sample_double urlDecode
             (sample_request [''Cookie'' \<mapsto> '';''] Map.empty ''203.0.113.5'')
             (new_WEnvironment Unknown) = Inr env'
     \<and> doesCookies env' \<and> cookies env' = Map.empty"
  using C7_cookie_support_flag[of "sample_conf False" sample_double urlDecode
             "sample_request [''Cookie'' \<mapsto> '';''] Map.empty ''203.0.113.5''"
             "new_WEnvironment Unknown"]
  by (simp add: sample_request_def new_WEnvironment_def)


section \<open>Properties of phase 2\<close>

text \<open>
  \<open>enableAjax\<close> returns, and its result is the environment with seven members
  rewritten.
\<close>

lemma enableAjax_result:
  "enableAjax lcd lci request env =
     Inr (env\<lparr> doesAjax := True,
              doesCookies := (req_headerValue request ''Cookie'' \<noteq> []),
              hashInternalPaths :=
                (req_getParameter request ''htmlHistory'' = None \<or> hashInternalPaths env),
              dpiScale := (case req_getParameter request ''scale'' of
                             None \<Rightarrow> Finite 1
                           | Some s \<Rightarrow> (case lcd s of None \<Rightarrow> Finite 1 | Some d \<Rightarrow> d)),
              timeZoneOffset := (case req_getParameter request ''tz'' of
                             None \<Rightarrow> 0
                           | Some s \<Rightarrow>
                               (case lci s of None \<Rightarrow> timeZoneOffset env | Some z \<Rightarrow> z)),
              internalPath := (case req_getParameter request ''_'' of
                             None \<Rightarrow> internalPath env
                           | Some h \<Rightarrow> if h = [] then [] else Utils_prepend h CHR ''/''),
              publicDeploymentPath := (case req_getParameter request ''deployPath'' of
                             None \<Rightarrow> publicDeploymentPath env
                           | Some d \<Rightarrow> if find_chr d CHR ''/'' = Some 0 then d else []) \<rparr>)"
  by (auto simp: enableAjax_def ebind_def catch_bad_lexical_cast_def lexical_cast_def Let_def
        setInternalPath_def split: option.splits)

text \<open>
  Claim C8. \<open>enableAjax\<close> returns without an exception. The scale is 1 when the \<open>scale\<close>
  parameter is absent or its conversion to a double throws, and the converted value
  otherwise. The offset is 0 when the \<open>tz\<close> parameter is absent, keeps its previous
  value when \<open>tz\<close> is present and its conversion to an integer throws, and is the
  converted value otherwise.
\<close>

theorem C8_scale_and_tz_defaults:
  "\<exists>env'. enableAjax lcd lci request env = Inr env'
     \<and> dpiScale env' =
         (case req_getParameter request ''scale'' of
            None \<Rightarrow> Finite 1
          | Some s \<Rightarrow> (case lcd s of None \<Rightarrow> Finite 1 | Some d \<Rightarrow> d))
     \<and> timeZoneOffset env' =
         (case req_getParameter request ''tz'' of
            None \<Rightarrow> 0
          | Some s \<Rightarrow> (case lci s of None \<Rightarrow> timeZoneOffset env | Some z \<Rightarrow> z))"
  by (simp add: enableAjax_result)

theorem C8_scale_and_tz_defaults_witness:
  "(\<exists>env'. enableAjax sample_double sample_int
             (sample_request Map.empty [''scale'' \<mapsto> ''abc'', ''tz'' \<mapsto> ''abc''] [])
             ((new_WEnvironment Unknown)\<lparr>dpiScale := Finite 2, timeZoneOffset := 60\<rparr>) = Inr env'
      \<and> dpiScale env' = Finite 1 \<and> timeZoneOffset env' = 60)
   \<and> (\<exists>env'. enableAjax sample_double sample_int
             (sample_request Map.empty Map.empty [])
             ((new_WEnvironment Unknown)\<lparr>dpiScale := Finite 2, timeZoneOffset := 60\<rparr>) = Inr env'
      \<and> dpiScale env' = Finite 1 \<and> timeZoneOffset env' = 0)"
  using C8_scale_and_tz_defaults[of sample_double sample_int
          "sample_request Map.empty [''scale'' \<mapsto> ''abc'', ''tz'' \<mapsto> ''abc''] []"
          "(new_WEnvironment Unknown)\<lparr>dpiScale := Finite 2, timeZoneOffset := 60\<rparr>"]
        C8_scale_and_tz_defaults[of sample_double sample_int
          "sample_request Map.empty Map.empty []"
          "(new_WEnvironment Unknown)\<lparr>dpiScale := Finite 2, timeZoneOffset := 60\<rparr>"]
  by (simp add: sample_request_def sample_double_def sample_int_def)

text \<open>
  Claim C9. When the \<open>deployPath\<close> parameter is present, \<open>enableAjax\<close> makes its value
  the public deployment path if the first \<open>/\<close> of the value is at position 0, and makes
  the public deployment path empty otherwise; the first \<open>/\<close> is at position 0 exactly
  when the value starts with \<open>/\<close>. When the parameter is absent the path is not touched.
\<close>

theorem C9_deployPath_validation:
  "(\<exists>env'. enableAjax lcd lci request env = Inr env'
      \<and> publicDeploymentPath env' =
          (case req_getParameter request ''deployPath'' of
             None \<Rightarrow> publicDeploymentPath env
           | Some d \<Rightarrow> if find_chr d CHR ''/'' = Some 0 then d else []))
   \<and> (find_chr d CHR ''/'' = Some 0) = starts_with d ''/''"
  by (simp add: enableAjax_result find_chr_first)

theorem C9_deployPath_validation_witness:
  "(\<exists>env'. enableAjax sample_double sample_int
             (sample_request Map.empty [''deployPath'' \<mapsto> ''foo''] [])
             (new_WEnvironment Unknown) = Inr env'
      \<and> publicDeploymentPath env' = [])
   \<and> (\<exists>env'. enableAjax sample_double sample_int
             (sample_request Map.empty [''deployPath'' \<mapsto> ''/app''] [])
             (new_WEnvironment Unknown) = Inr env'
      \<and> publicDeploymentPath env' = ''/app'')"
  using C9_deployPath_validation[of sample_double sample_int
          "sample_request Map.empty [''deployPath'' \<mapsto> ''foo''] []"
          "new_WEnvironment Unknown" "''foo''"]
        C9_deployPath_validation[of sample_double sample_int
          "sample_request Map.empty [''deployPath'' \<mapsto> ''/app''] []"
          "new_WEnvironment Unknown" "''/app''"]
  by (simp add: sample_request_def)

text \<open>
  Claim C10. \<open>enableAjax\<close> changes at most seven members of the environment: the AJAX
  flag, the cookie-support flag, the hash-internal-path flag, the scale, the offset, the
  internal path and the public deployment path. Putting the old values of these seven
  back gives the old environment, so every other member is unchanged; in particular
  the cookie map is the old one, although the cookie-support flag is that of the
  \<open>Cookie\<close> header of the new request.
\<close>

theorem C10_enableAjax_frame:
  "\<exists>env'. enableAjax lcd lci request env = Inr env'
     \<and> env'\<lparr> doesAjax := doesAjax env,
              doesCookies := doesCookies env,
              hashInternalPaths := hashInternalPaths env,
              dpiScale := dpiScale env,
              timeZoneOffset := timeZoneOffset env,
              internalPath := internalPath env,
              publicDeploymentPath := publicDeploymentPath env \<rparr> = env
     \<and> cookies env' = cookies env
     \<and> doesCookies env' = (req_headerValue request ''Cookie'' \<noteq> [])"
  by (simp add: enableAjax_result)

theorem C10_enableAjax_frame_witness:
  "\<exists>env'. enableAjax sample_double sample_int
            (sample_request [''Cookie'' \<mapsto> ''a=1''] [''tz'' \<mapsto> ''60'', ''_'' \<mapsto> ''page''] [])
            ((new_WEnvironment Firefox3_6)\<lparr>host := ''example.org''\<rparr>) = Inr env'
     \<and> doesCookies env' \<and> cookies env' = Map.empty
     \<and> host env' = ''example.org'' \<and> agent env' = Firefox3_6 \<and> userAgent env' = []"
proof -
  let ?rq = "sample_request [''Cookie'' \<mapsto> ''a=1''] [''tz'' \<mapsto> ''60'', ''_'' \<mapsto> ''page''] []"
  let ?e = "(new_WEnvironment Firefox3_6)\<lparr>host := ''example.org''\<rparr>"
  obtain env' where r: "enableAjax sample_double sample_int ?rq ?e = Inr env'"
    and f: "env'\<lparr> doesAjax := doesAjax ?e,
              doesCookies := doesCookies ?e,
              hashInternalPaths := hashInternalPaths ?e,
              dpiScale := dpiScale ?e,
              timeZoneOffset := timeZoneOffset ?e,
              internalPath := internalPath ?e,
              publicDeploymentPath := publicDeploymentPath ?e \<rparr> = ?e"
    and c: "cookies env' = cookies ?e"
    and d: "doesCookies env' = (req_headerValue ?rq ''Cookie'' \<noteq> [])"
    using C10_enableAjax_frame[of sample_double sample_int ?rq ?e] by blast
  have "host env' = ''example.org''" "agent env' = Firefox3_6" "userAgent env' = []"
    using arg_cong[OF f, of host] arg_cong[OF f, of agent] arg_cong[OF f, of userAgent]
    by (simp_all add: new_WEnvironment_def)
  moreover have "doesCookies env'" using d by (simp add: sample_request_def)
  moreover have "cookies env' = Map.empty" using c by (simp add: new_WEnvironment_def)
  ultimately show ?thesis using r by simp
qed

end
